theory Spec2Isabelle
  imports Main "HOL-Library.Word"
begin

unbundle bit_operations_syntax

section \<open>Register model of the LTR-303 driver (ltr303.h)\<close>

subsection \<open>Register addresses\<close>

text \<open>
  \<^verbatim>\<open>enum class CommandRegisters : uint8_t\<close>: a scoped enumeration, so a datatype; the
  enumerator values are the bus addresses, given by \<open>reg_addr\<close>.
\<close>

datatype CommandRegisters =
  ALS_CTRL | MEAS_RATE | PART_ID | MANU_ID | CH1_0 | CH1_1 | CH0_0 | CH0_1 | ALS_STATUS

fun reg_addr :: "CommandRegisters \<Rightarrow> 8 word" where
  "reg_addr ALS_CTRL = 0x80"
| "reg_addr MEAS_RATE = 0x85"
| "reg_addr PART_ID = 0x86"
| "reg_addr MANU_ID = 0x87"
| "reg_addr CH1_0 = 0x88"
| "reg_addr CH1_1 = 0x89"
| "reg_addr CH0_0 = 0x8A"
| "reg_addr CH0_1 = 0x8B"
| "reg_addr ALS_STATUS = 0x8C"

subsection \<open>Enumerations\<close>

text \<open>
  \<^verbatim>\<open>enum Gain : uint8_t\<close> and \<^verbatim>\<open>enum IntegrationTime : uint8_t\<close> are unscoped
  enumerations with a fixed underlying type: a value of the type is any byte, and the
  enumerators are six (eight) named bytes. There is no enumerator for the bytes 4 and 5
  of \<open>Gain\<close>.
\<close>

type_synonym Gain = "8 word"

definition GAIN_1 :: Gain where "GAIN_1 = 0"
definition GAIN_2 :: Gain where "GAIN_2 = 1"
definition GAIN_4 :: Gain where "GAIN_4 = 2"
definition GAIN_8 :: Gain where "GAIN_8 = 3"
definition GAIN_48 :: Gain where "GAIN_48 = 6"
definition GAIN_96 :: Gain where "GAIN_96 = 7"

definition GAINS_COUNT :: "8 word" where "GAINS_COUNT = 6"

type_synonym IntegrationTime = "8 word"

definition INTEGRATION_TIME_100MS :: IntegrationTime where "INTEGRATION_TIME_100MS = 0"
definition INTEGRATION_TIME_50MS :: IntegrationTime where "INTEGRATION_TIME_50MS = 1"
definition INTEGRATION_TIME_200MS :: IntegrationTime where "INTEGRATION_TIME_200MS = 2"
definition INTEGRATION_TIME_400MS :: IntegrationTime where "INTEGRATION_TIME_400MS = 3"
definition INTEGRATION_TIME_150MS :: IntegrationTime where "INTEGRATION_TIME_150MS = 4"
definition INTEGRATION_TIME_250MS :: IntegrationTime where "INTEGRATION_TIME_250MS = 5"
definition INTEGRATION_TIME_300MS :: IntegrationTime where "INTEGRATION_TIME_300MS = 6"
definition INTEGRATION_TIME_350MS :: IntegrationTime where "INTEGRATION_TIME_350MS = 7"

definition TIMES_COUNT :: "8 word" where "TIMES_COUNT = 8"

text \<open>
  \<^verbatim>\<open>enum MeasurementRepeatRate\<close> has no fixed underlying type. Its values are those
  of the smallest bit-field that holds every enumerator, here three bits (0..7), of
  which six are named.
\<close>

type_synonym MeasurementRepeatRate = "3 word"

definition REPEAT_RATE_50MS :: MeasurementRepeatRate where "REPEAT_RATE_50MS = 0"
definition REPEAT_RATE_100MS :: MeasurementRepeatRate where "REPEAT_RATE_100MS = 1"
definition REPEAT_RATE_200MS :: MeasurementRepeatRate where "REPEAT_RATE_200MS = 2"
definition REPEAT_RATE_500MS :: MeasurementRepeatRate where "REPEAT_RATE_500MS = 3"
definition REPEAT_RATE_1000MS :: MeasurementRepeatRate where "REPEAT_RATE_1000MS = 4"
definition REPEAT_RATE_2000MS :: MeasurementRepeatRate where "REPEAT_RATE_2000MS = 5"

text \<open>The enumerators of each type, in declaration order.\<close>

definition defined_gains :: "Gain list" where
  "defined_gains = [GAIN_1, GAIN_2, GAIN_4, GAIN_8, GAIN_48, GAIN_96]"

definition defined_times :: "IntegrationTime list" where
  "defined_times =
     [INTEGRATION_TIME_100MS, INTEGRATION_TIME_50MS, INTEGRATION_TIME_200MS,
      INTEGRATION_TIME_400MS, INTEGRATION_TIME_150MS, INTEGRATION_TIME_250MS,
      INTEGRATION_TIME_300MS, INTEGRATION_TIME_350MS]"

text \<open>
  A member declared \<^verbatim>\<open>Gain gain : 3\<close> stores three bits. Reading it gives the \<open>Gain\<close>
  whose byte is those bits zero-extended; assigning a \<open>Gain\<close> to it keeps the low three
  bits of the byte. The same holds for \<^verbatim>\<open>IntegrationTime integration_time : 3\<close>.
\<close>

definition gain_of_bits :: "3 word \<Rightarrow> Gain" where
  "gain_of_bits p = ucast p"

definition bits_of_gain :: "Gain \<Rightarrow> 3 word" where
  "bits_of_gain g = ucast g"

definition time_of_bits :: "3 word \<Rightarrow> IntegrationTime" where
  "time_of_bits p = ucast p"

definition bits_of_time :: "IntegrationTime \<Rightarrow> 3 word" where
  "bits_of_time t = ucast t"

subsection \<open>Bit-field overlays\<close>

text \<open>
  Each register is a union of the raw byte and a packed struct of bit-fields. The
  members are allocated in declaration order from the least significant bit (the layout
  of the driver's little-endian targets, and the one the datasheet's register tables
  give). A record holds the members; \<open>*_of_raw\<close> reads the members of a byte and
  \<open>*_raw\<close> reads the byte of the members. The members \<open>gain\<close> and
  \<open>integration_time\<close> occur in several structs of the source, so the record fields
  carry the register's name as a prefix.
\<close>

record ControlRegister =
  ctrl_active_mode :: bool
  ctrl_sw_reset :: bool
  ctrl_gain :: "3 word"
  ctrl_reserved :: "3 word"

definition ctrl_of_raw :: "8 word \<Rightarrow> ControlRegister" where
  "ctrl_of_raw b =
     \<lparr>ctrl_active_mode = bit b 0,
      ctrl_sw_reset = bit b 1,
      ctrl_gain = ucast (drop_bit 2 b),
      ctrl_reserved = ucast (drop_bit 5 b)\<rparr>"

definition ctrl_raw :: "ControlRegister \<Rightarrow> 8 word" where
  "ctrl_raw r =
     of_bool (ctrl_active_mode r)
     OR push_bit 1 (of_bool (ctrl_sw_reset r))
     OR push_bit 2 (ucast (ctrl_gain r))
     OR push_bit 5 (ucast (ctrl_reserved r))"

record MeasurementRateRegister =
  mr_measurement_repeat_rate :: "3 word"
  mr_integration_time :: "3 word"
  mr_reserved_6 :: bool
  mr_reserved_7 :: bool

definition meas_rate_of_raw :: "8 word \<Rightarrow> MeasurementRateRegister" where
  "meas_rate_of_raw b =
     \<lparr>mr_measurement_repeat_rate = ucast b,
      mr_integration_time = ucast (drop_bit 3 b),
      mr_reserved_6 = bit b 6,
      mr_reserved_7 = bit b 7\<rparr>"

definition meas_rate_raw :: "MeasurementRateRegister \<Rightarrow> 8 word" where
  "meas_rate_raw r =
     ucast (mr_measurement_repeat_rate r)
     OR push_bit 3 (ucast (mr_integration_time r))
     OR push_bit 6 (of_bool (mr_reserved_6 r))
     OR push_bit 7 (of_bool (mr_reserved_7 r))"

record StatusRegister =
  st_reserved_0 :: bool
  st_reserved_1 :: bool
  st_new_data :: bool
  st_reserved_3 :: bool
  st_gain :: "3 word"
  st_data_invalid :: bool

definition status_of_raw :: "8 word \<Rightarrow> StatusRegister" where
  "status_of_raw b =
     \<lparr>st_reserved_0 = bit b 0,
      st_reserved_1 = bit b 1,
      st_new_data = bit b 2,
      st_reserved_3 = bit b 3,
      st_gain = ucast (drop_bit 4 b),
      st_data_invalid = bit b 7\<rparr>"

definition status_raw :: "StatusRegister \<Rightarrow> 8 word" where
  "status_raw r =
     of_bool (st_reserved_0 r)
     OR push_bit 1 (of_bool (st_reserved_1 r))
     OR push_bit 2 (of_bool (st_new_data r))
     OR push_bit 3 (of_bool (st_reserved_3 r))
     OR push_bit 4 (ucast (st_gain r))
     OR push_bit 7 (of_bool (st_data_invalid r))"

subsection \<open>The component\<close>

datatype DataAvail = NO_DATA | BAD_DATA | DATA_OK

datatype State =
  NOT_INITIALIZED | DELAYED_SETUP | IDLE | WAITING_FOR_DATA | COLLECTING_DATA_AUTO
  | DATA_COLLECTED | ADJUSTMENT_IN_PROGRESS | READY_TO_PUBLISH | KEEP_PUBLISHING

text \<open>
  No claim computes with the two \<^verbatim>\<open>float\<close> members: they are only initialised, stored
  and compared. A \<^verbatim>\<open>float\<close> is therefore kept as its IEEE-754 binary32 bit pattern.
  A \<^verbatim>\<open>sensor::Sensor *\<close> is an optional address, \<open>None\<close> for \<^verbatim>\<open>nullptr\<close>.
\<close>

type_synonym float32 = "32 word"

definition float_0 :: float32 where "float_0 = 0x00000000"
definition float_1 :: float32 where "float_1 = 0x3F800000"

type_synonym sensor_ptr = "nat option"

record Readings =
  ch0 :: "16 word"
  ch1 :: "16 word"
  actual_gain :: Gain
  integration_time :: IntegrationTime
  lux :: float32

record LTR303Component =
  this_state :: State
  this_readings :: Readings
  this_automatic_mode_enabled :: bool
  this_gain :: Gain
  this_integration_time :: IntegrationTime
  this_repeat_rate :: MeasurementRepeatRate
  this_glass_attenuation_factor :: float32
  this_infrared_counts_sensor :: sensor_ptr
  this_full_spectrum_counts_sensor :: sensor_ptr
  this_ambient_light_sensor :: sensor_ptr
  this_actual_gain_sensor :: sensor_ptr
  this_actual_integration_time_sensor :: sensor_ptr

text \<open>
  A member \<^verbatim>\<open>name_\<close> of the class is the field \<open>this_name\<close> of the record (a
  name cannot end in an underscore here).
\<close>

text \<open>The default member initialisers of \<^verbatim>\<open>Readings\<close> and of the component.\<close>

definition Readings_init :: Readings where
  "Readings_init =
     \<lparr>ch0 = 0, ch1 = 0, actual_gain = GAIN_1,
      integration_time = INTEGRATION_TIME_100MS, lux = float_0\<rparr>"

definition LTR303Component_init :: LTR303Component where
  "LTR303Component_init =
     \<lparr>this_state = NOT_INITIALIZED,
      this_readings = Readings_init,
      this_automatic_mode_enabled = True,
      this_gain = GAIN_1,
      this_integration_time = INTEGRATION_TIME_100MS,
      this_repeat_rate = REPEAT_RATE_500MS,
      this_glass_attenuation_factor = float_1,
      this_infrared_counts_sensor = None,
      this_full_spectrum_counts_sensor = None,
      this_ambient_light_sensor = None,
      this_actual_gain_sensor = None,
      this_actual_integration_time_sensor = None\<rparr>"

text \<open>The configuration setters, each a single assignment in the source.\<close>

definition set_gain :: "Gain \<Rightarrow> LTR303Component \<Rightarrow> LTR303Component" where
  "set_gain gain c = c\<lparr>this_gain := gain\<rparr>"

definition set_integration_time :: "IntegrationTime \<Rightarrow> LTR303Component \<Rightarrow> LTR303Component" where
  "set_integration_time time c = c\<lparr>this_integration_time := time\<rparr>"

definition set_repeat_rate :: "MeasurementRepeatRate \<Rightarrow> LTR303Component \<Rightarrow> LTR303Component" where
  "set_repeat_rate rate c = c\<lparr>this_repeat_rate := rate\<rparr>"

definition set_glass_attenuation_factor :: "float32 \<Rightarrow> LTR303Component \<Rightarrow> LTR303Component" where
  "set_glass_attenuation_factor factor c = c\<lparr>this_glass_attenuation_factor := factor\<rparr>"

definition set_enable_automatic_mode :: "bool \<Rightarrow> LTR303Component \<Rightarrow> LTR303Component" where
  "set_enable_automatic_mode enable c = c\<lparr>this_automatic_mode_enabled := enable\<rparr>"

definition set_ambient_light_sensor :: "sensor_ptr \<Rightarrow> LTR303Component \<Rightarrow> LTR303Component" where
  "set_ambient_light_sensor sensor c = c\<lparr>this_ambient_light_sensor := sensor\<rparr>"

definition set_full_spectrum_counts_sensor :: "sensor_ptr \<Rightarrow> LTR303Component \<Rightarrow> LTR303Component" where
  "set_full_spectrum_counts_sensor sensor c = c\<lparr>this_full_spectrum_counts_sensor := sensor\<rparr>"

definition set_infrared_counts_sensor :: "sensor_ptr \<Rightarrow> LTR303Component \<Rightarrow> LTR303Component" where
  "set_infrared_counts_sensor sensor c = c\<lparr>this_infrared_counts_sensor := sensor\<rparr>"

definition set_actual_gain_sensor :: "sensor_ptr \<Rightarrow> LTR303Component \<Rightarrow> LTR303Component" where
  "set_actual_gain_sensor sensor c = c\<lparr>this_actual_gain_sensor := sensor\<rparr>"

definition set_actual_integration_time_sensor :: "sensor_ptr \<Rightarrow> LTR303Component \<Rightarrow> LTR303Component" where
  "set_actual_integration_time_sensor sensor c = c\<lparr>this_actual_integration_time_sensor := sensor\<rparr>"

section \<open>Device Control and the Adaptive Controller\<close>

text \<open>
  \<^verbatim>\<open>ltr303.h\<close> declares \<^verbatim>\<open>configure_reset_and_activate_\<close>,
  \<^verbatim>\<open>configure_integration_time_\<close>, \<^verbatim>\<open>configure_gain_\<close>, \<^verbatim>\<open>is_data_ready_\<close>,
  \<^verbatim>\<open>read_sensor_data_\<close> and \<^verbatim>\<open>are_adjustments_required_\<close>; their bodies are in a
  source file that is not part of the sources at hand. The definitions of this section
  follow the design document's description of each operation (sections 4.2, 4.4 and 6),
  on the register model above, which is the header's. The names drop the trailing
  underscore.
\<close>

subsection \<open>The bus transport\<close>

text \<open>
  Modelled from the spec: the bus transport \<^verbatim>\<open>read_register(address)\<close> and
  \<^verbatim>\<open>write_register(address, byte)\<close> of the external interfaces. The device is a register
  file; every access is appended to a trace, so that the addresses an operation uses and
  their order can be stated. The failure outcome of an access is left out: the document
  does not say how each operation surfaces it.
\<close>

datatype bus_access = Read "8 word" | Write "8 word" "8 word"

fun access_addr :: "bus_access \<Rightarrow> 8 word" where
  "access_addr (Read a) = a"
| "access_addr (Write a v) = a"

record bus =
  device :: "8 word \<Rightarrow> 8 word"
  trace :: "bus_access list"

definition read_register :: "8 word \<Rightarrow> bus \<Rightarrow> 8 word \<times> bus" where
  "read_register a b = (device b a, b\<lparr>trace := trace b @ [Read a]\<rparr>)"

definition write_register :: "8 word \<Rightarrow> 8 word \<Rightarrow> bus \<Rightarrow> bus" where
  "write_register a v b = b\<lparr>device := (device b)(a := v), trace := trace b @ [Write a v]\<rparr>"

text \<open>
  Modelled from the spec: the combination of a low and a high byte into a 16-bit count,
  "combined little-endian".
\<close>

definition le_uint16 :: "8 word \<Rightarrow> 8 word \<Rightarrow> 16 word" where
  "le_uint16 lo hi = push_bit 8 (ucast hi) OR ucast lo"

subsection \<open>Device Control\<close>

text \<open>
  Modelled from the spec: the body of \<^verbatim>\<open>configure_reset_and_activate_\<close>, "writes
  ControlRegister with sw_reset=1 then, after a device-specified settle delay, writes
  active_mode=1, sw_reset=0, gain=configured gain". The wait between the writes leaves
  no mark on the bus.
\<close>

definition configure_reset_and_activate :: "LTR303Component \<Rightarrow> bus \<Rightarrow> bus" where
  "configure_reset_and_activate c b =
     (let b1 = write_register (reg_addr ALS_CTRL)
                 (ctrl_raw \<lparr>ctrl_active_mode = False, ctrl_sw_reset = True,
                    ctrl_gain = 0, ctrl_reserved = 0\<rparr>) b
      in write_register (reg_addr ALS_CTRL)
           (ctrl_raw \<lparr>ctrl_active_mode = True, ctrl_sw_reset = False,
              ctrl_gain = bits_of_gain (this_gain c), ctrl_reserved = 0\<rparr>) b1)"

text \<open>
  Modelled from the spec: the bodies of \<^verbatim>\<open>configure_integration_time_\<close> and
  \<^verbatim>\<open>configure_gain_\<close>, "read-modify-write the relevant register, preserving unrelated
  bits".
\<close>

definition configure_integration_time :: "IntegrationTime \<Rightarrow> bus \<Rightarrow> bus" where
  "configure_integration_time time b =
     (let (raw, b1) = read_register (reg_addr MEAS_RATE) b;
          r = meas_rate_of_raw raw
      in write_register (reg_addr MEAS_RATE)
           (meas_rate_raw (r\<lparr>mr_integration_time := bits_of_time time\<rparr>)) b1)"

definition configure_gain :: "Gain \<Rightarrow> bus \<Rightarrow> bus" where
  "configure_gain gain b =
     (let (raw, b1) = read_register (reg_addr ALS_CTRL) b;
          r = ctrl_of_raw raw
      in write_register (reg_addr ALS_CTRL)
           (ctrl_raw (r\<lparr>ctrl_gain := bits_of_gain gain\<rparr>)) b1)"

text \<open>
  Modelled from the spec: the body of \<^verbatim>\<open>is_data_ready_\<close>, "reads StatusRegister;
  NO_DATA when new_data=0; BAD_DATA when new_data=1 and data_invalid=1; DATA_OK when
  new_data=1 and data_invalid=0. Also records the gain the device reports it actually
  used for this sample (StatusRegister.gain)". Without new data there is no sample, and
  the readings are left as they are.
\<close>

definition is_data_ready :: "Readings \<Rightarrow> bus \<Rightarrow> (DataAvail \<times> Readings) \<times> bus" where
  "is_data_ready data b =
     (let (raw, b1) = read_register (reg_addr ALS_STATUS) b;
          als_status = status_of_raw raw
      in if \<not> st_new_data als_status then ((NO_DATA, data), b1)
         else
           ((if st_data_invalid als_status then BAD_DATA else DATA_OK,
             data\<lparr>actual_gain := gain_of_bits (st_gain als_status)\<rparr>), b1))"

text \<open>
  Modelled from the spec: the body of \<^verbatim>\<open>read_sensor_data_\<close>, "reads both channel
  registers into out.ch0/out.ch1, low byte then high byte per channel, and stamps
  out.actual_gain from the status read"; the channel reads are "two sequential
  single-byte reads (low byte first) combined little-endian". The registers are read in
  the order of their addresses, the infrared channel CH1 first. The operation makes no
  status read of its own (it "reads both channel registers"), the header gives it the
  readings as its only parameter and the class has no member that keeps a status: the
  decoded status register of the status read is therefore the argument \<open>als_status\<close>,
  and its gain field is written to \<open>actual_gain\<close> whatever the readings held before.
\<close>

definition read_sensor_data ::
  "StatusRegister \<Rightarrow> Readings \<Rightarrow> bus \<Rightarrow> Readings \<times> bus" where
  "read_sensor_data als_status data b =
     (let (ch1_0, b1) = read_register (reg_addr CH1_0) b;
          (ch1_1, b2) = read_register (reg_addr CH1_1) b1;
          (ch0_0, b3) = read_register (reg_addr CH0_0) b2;
          (ch0_1, b4) = read_register (reg_addr CH0_1) b3
      in (data\<lparr>ch0 := le_uint16 ch0_0 ch0_1, ch1 := le_uint16 ch1_0 ch1_1,
                actual_gain := gain_of_bits (st_gain als_status)\<rparr>, b4))"

subsection \<open>Adaptive Controller\<close>

text \<open>
  Modelled from the spec: the ladders along which \<^verbatim>\<open>are_adjustments_required_\<close> moves.
  The gains are ordered by amplification and the integration times by duration;
  \<open>get_next\<close> is the next step up, and the value itself at the top of the ladder (or
  off the ladder); \<open>get_prev\<close> is the next step down.
\<close>

definition GAINS :: "Gain list" where
  "GAINS = [GAIN_1, GAIN_2, GAIN_4, GAIN_8, GAIN_48, GAIN_96]"

definition TIMES :: "IntegrationTime list" where
  "TIMES =
     [INTEGRATION_TIME_50MS, INTEGRATION_TIME_100MS, INTEGRATION_TIME_150MS,
      INTEGRATION_TIME_200MS, INTEGRATION_TIME_250MS, INTEGRATION_TIME_300MS,
      INTEGRATION_TIME_350MS, INTEGRATION_TIME_400MS]"

fun get_next :: "'a list \<Rightarrow> 'a \<Rightarrow> 'a" where
  "get_next (y # z # ys) x = (if x = y then z else get_next (z # ys) x)"
| "get_next ys x = x"

definition get_prev :: "'a list \<Rightarrow> 'a \<Rightarrow> 'a" where
  "get_prev ys x = get_next (rev ys) x"

text \<open>
  Modelled from the spec: the body of \<^verbatim>\<open>are_adjustments_required_\<close>, "active only when
  automatic mode is enabled. If both channels are below a low-count threshold and
  gain/integration time are not already at maximum, increase gain first, then
  integration time. If either channel is at or near saturation and gain/integration
  time are not already at minimum, decrease gain first, then integration time. Returns
  false once settings are at the extreme". The document gives no numbers for the two
  thresholds: they are the parameters \<open>low\<close> and \<open>high\<close>.
\<close>

definition are_adjustments_required ::
  "16 word \<Rightarrow> 16 word \<Rightarrow> LTR303Component \<Rightarrow> Readings \<Rightarrow> bool \<times> Readings" where
  "are_adjustments_required low high c data =
     (if \<not> this_automatic_mode_enabled c then (False, data)
      else if ch0 data < low \<and> ch1 data < low then
        (if get_next GAINS (actual_gain data) \<noteq> actual_gain data
         then (True, data\<lparr>actual_gain := get_next GAINS (actual_gain data)\<rparr>)
         else if get_next TIMES (integration_time data) \<noteq> integration_time data
         then (True, data\<lparr>integration_time := get_next TIMES (integration_time data)\<rparr>)
         else (False, data))
      else if high \<le> ch0 data \<or> high \<le> ch1 data then
        (if get_prev GAINS (actual_gain data) \<noteq> actual_gain data
         then (True, data\<lparr>actual_gain := get_prev GAINS (actual_gain data)\<rparr>)
         else if get_prev TIMES (integration_time data) \<noteq> integration_time data
         then (True, data\<lparr>integration_time := get_prev TIMES (integration_time data)\<rparr>)
         else (False, data))
      else (False, data))"

section \<open>Properties of the model\<close>

subsection \<open>Bits of an encoded register\<close>

lemma bit_push_of_bool:
  "bit (push_bit k (of_bool c) :: 8 word) n = (c \<and> n = k \<and> k < 8)"
  by (cases c) (auto simp add: bit_push_bit_iff bit_1_iff bit_exp_iff)

lemma bit_of_bool_word: "bit (of_bool c :: 8 word) n = (c \<and> n = 0)"
  by (auto simp add: bit_of_bool_iff)

lemma bit_push_field:
  "bit (push_bit k (ucast (f :: 3 word)) :: 8 word) n = (k \<le> n \<and> n < 8 \<and> bit f (n - k))"
  by (auto simp add: bit_push_bit_iff bit_ucast_iff dest: bit_imp_le_length)

lemma bit_field_word: "bit (ucast (f :: 3 word) :: 8 word) n = bit f n"
  by (auto simp add: bit_ucast_iff dest: bit_imp_le_length)

lemma bit_field_of_byte:
  "bit (ucast (drop_bit k (b :: 8 word)) :: 3 word) n = (n < 3 \<and> bit b (k + n))"
  by (auto simp add: bit_ucast_iff bit_drop_bit_eq ac_simps dest: bit_imp_le_length)

lemma bit_low_field_of_byte:
  "bit (ucast (b :: 8 word) :: 3 word) n = (n < 3 \<and> bit b n)"
  by (auto simp add: bit_ucast_iff dest: bit_imp_le_length)

lemma bit_ctrl_raw:
  "bit (ctrl_raw r) n =
     (if n = 0 then ctrl_active_mode r
      else if n = 1 then ctrl_sw_reset r
      else if n < 5 then bit (ctrl_gain r) (n - 2)
      else n < 8 \<and> bit (ctrl_reserved r) (n - 5))"
  unfolding ctrl_raw_def bit_or_iff bit_push_of_bool bit_of_bool_word bit_push_field
  by (auto dest: bit_imp_le_length)

lemma bit_meas_rate_raw:
  "bit (meas_rate_raw r) n =
     (if n < 3 then bit (mr_measurement_repeat_rate r) n
      else if n < 6 then bit (mr_integration_time r) (n - 3)
      else if n = 6 then mr_reserved_6 r
      else n = 7 \<and> mr_reserved_7 r)"
  unfolding meas_rate_raw_def bit_or_iff bit_push_of_bool bit_field_word bit_push_field
  by (auto dest: bit_imp_le_length)

lemma bit_status_raw:
  "bit (status_raw r) n =
     (if n = 0 then st_reserved_0 r
      else if n = 1 then st_reserved_1 r
      else if n = 2 then st_new_data r
      else if n = 3 then st_reserved_3 r
      else if n < 7 then bit (st_gain r) (n - 4)
      else n = 7 \<and> st_data_invalid r)"
  unfolding status_raw_def bit_or_iff bit_push_of_bool bit_of_bool_word bit_push_field
  by (auto dest: bit_imp_le_length)

lemma byte_index_cases: "i < 8 \<Longrightarrow> i \<in> {0, 1, 2, 3, 4, 5, 6, 7 :: nat}"
  by auto

lemma ctrl_raw_of_raw: "ctrl_raw (ctrl_of_raw b) = b"
proof (rule bit_word_eqI)
  fix n assume "n < LENGTH(8)"
  then have "n < 8" by simp
  from byte_index_cases [OF this]
  show "bit (ctrl_raw (ctrl_of_raw b)) n = bit b n"
    by (elim insertE emptyE) (simp_all add: bit_ctrl_raw ctrl_of_raw_def bit_field_of_byte)
qed

lemma meas_rate_raw_of_raw: "meas_rate_raw (meas_rate_of_raw b) = b"
proof (rule bit_word_eqI)
  fix n assume "n < LENGTH(8)"
  then have "n < 8" by simp
  from byte_index_cases [OF this]
  show "bit (meas_rate_raw (meas_rate_of_raw b)) n = bit b n"
    by (elim insertE emptyE)
      (simp_all add: bit_meas_rate_raw meas_rate_of_raw_def bit_field_of_byte
        bit_low_field_of_byte bit_drop_bit_eq)
qed

lemma status_raw_of_raw: "status_raw (status_of_raw b) = b"
proof (rule bit_word_eqI)
  fix n assume "n < LENGTH(8)"
  then have "n < 8" by simp
  from byte_index_cases [OF this]
  show "bit (status_raw (status_of_raw b)) n = bit b n"
    by (elim insertE emptyE) (simp_all add: bit_status_raw status_of_raw_def bit_field_of_byte)
qed

lemma ctrl_of_raw_raw: "ctrl_of_raw (ctrl_raw r) = r"
  unfolding ctrl_of_raw_def
  by (cases r) (auto simp add: bit_ctrl_raw bit_field_of_byte intro!: bit_word_eqI)

lemma three_bit_cases:
  "(p :: 3 word) = 0 \<or> p = 1 \<or> p = 2 \<or> p = 3 \<or> p = 4 \<or> p = 5 \<or> p = 6 \<or> p = 7"
proof -
  have "unat p < 8"
    using unsigned_less [of p, where 'a = nat] by simp
  then have "unat p = 0 \<or> unat p = 1 \<or> unat p = 2 \<or> unat p = 3
      \<or> unat p = 4 \<or> unat p = 5 \<or> unat p = 6 \<or> unat p = 7"
    by arith
  then show ?thesis
    by (auto simp add: word_unat_eq_iff)
qed

lemma field_of_enum_of_field: "(ucast (ucast (p :: 3 word) :: 8 word) :: 3 word) = p"
  by (rule bit_word_eqI) (simp add: bit_ucast_iff)

lemmas gain_defs = GAIN_1_def GAIN_2_def GAIN_4_def GAIN_8_def GAIN_48_def GAIN_96_def

lemmas time_defs =
  INTEGRATION_TIME_100MS_def INTEGRATION_TIME_50MS_def INTEGRATION_TIME_200MS_def
  INTEGRATION_TIME_400MS_def INTEGRATION_TIME_150MS_def INTEGRATION_TIME_250MS_def
  INTEGRATION_TIME_300MS_def INTEGRATION_TIME_350MS_def

lemma gain_of_bits_defined:
  "(gain_of_bits p \<in> set defined_gains) = (p \<notin> {4, 5})"
  using three_bit_cases [of p]
  by (auto simp add: gain_of_bits_def defined_gains_def gain_defs)

lemma time_of_bits_defined: "time_of_bits q \<in> set defined_times"
  using three_bit_cases [of q]
  by (auto simp add: time_of_bits_def defined_times_def time_defs)

subsection \<open>Facts about the operations\<close>

lemma gain_of_field: "gain_of_bits (ucast (w :: 8 word)) = take_bit 3 w"
  unfolding gain_of_bits_def
  by (rule bit_word_eqI) (auto simp add: bit_ucast_iff bit_take_bit_iff)


lemma get_next_GAINS:
  "get_next GAINS g =
     (if g = GAIN_1 then GAIN_2 else if g = GAIN_2 then GAIN_4
      else if g = GAIN_4 then GAIN_8 else if g = GAIN_8 then GAIN_48
      else if g = GAIN_48 then GAIN_96 else g)"
  by (simp add: GAINS_def)

lemma get_prev_GAINS:
  "get_prev GAINS g =
     (if g = GAIN_96 then GAIN_48 else if g = GAIN_48 then GAIN_8
      else if g = GAIN_8 then GAIN_4 else if g = GAIN_4 then GAIN_2
      else if g = GAIN_2 then GAIN_1 else g)"
  by (simp add: GAINS_def get_prev_def)

lemma get_next_TIMES_top: "get_next TIMES INTEGRATION_TIME_400MS = INTEGRATION_TIME_400MS"
  by (simp add: TIMES_def time_defs)

lemma get_prev_TIMES_bottom: "get_prev TIMES INTEGRATION_TIME_50MS = INTEGRATION_TIME_50MS"
  by (simp add: TIMES_def get_prev_def time_defs)

section \<open>The claims\<close>

text \<open>
  C1. Decoding any register byte into the members of \<open>ControlRegister\<close>,
  \<open>MeasurementRateRegister\<close> or \<open>StatusRegister\<close> and encoding the members again
  gives the byte back. The structs declare a member for every reserved bit, so the
  equality holds for all eight bits, the reserved ones included.
\<close>

theorem register_round_trip:
  "ctrl_raw (ctrl_of_raw b) = b
   \<and> meas_rate_raw (meas_rate_of_raw b) = b
   \<and> status_raw (status_of_raw b) = b"
  by (simp add: ctrl_raw_of_raw meas_rate_raw_of_raw status_raw_of_raw)

text \<open>
  C2 (as the code has it). Reading a three-bit field as a \<open>Gain\<close> or an \<open>IntegrationTime\<close> is a total
  function and writing the value back restores the field, for all eight patterns; each
  enumerator survives being written to a field and read back. Every pattern is an
  \<open>IntegrationTime\<close> enumerator. The patterns 4 and 5, and only they, read as a
  \<open>Gain\<close> that is none of the six enumerators: the unnamed values 4 and 5, different
  from each other.
\<close>

theorem enum_field_round_trip:
  "bits_of_gain (gain_of_bits p) = p
   \<and> bits_of_time (time_of_bits q) = q
   \<and> map (gain_of_bits \<circ> bits_of_gain) defined_gains = defined_gains
   \<and> map (time_of_bits \<circ> bits_of_time) defined_times = defined_times
   \<and> distinct (map bits_of_gain defined_gains)
   \<and> distinct (map bits_of_time defined_times)
   \<and> (gain_of_bits p \<in> set defined_gains) = (p \<notin> {4, 5})
   \<and> time_of_bits q \<in> set defined_times
   \<and> gain_of_bits 4 = 4 \<and> gain_of_bits 5 = 5
   \<and> gain_of_bits 4 \<notin> set defined_gains
   \<and> gain_of_bits 5 \<notin> set defined_gains"
proof -
  have fields: "bits_of_gain (gain_of_bits p) = p" "bits_of_time (time_of_bits q) = q"
    by (simp_all add: bits_of_gain_def gain_of_bits_def bits_of_time_def time_of_bits_def
        field_of_enum_of_field)
  have enums: "map (gain_of_bits \<circ> bits_of_gain) defined_gains = defined_gains"
    "map (time_of_bits \<circ> bits_of_time) defined_times = defined_times"
    by (simp_all add: bits_of_gain_def gain_of_bits_def bits_of_time_def time_of_bits_def
        defined_gains_def defined_times_def gain_defs time_defs)
  have inj: "distinct (map bits_of_gain defined_gains)"
    "distinct (map bits_of_time defined_times)"
    by (simp_all add: bits_of_gain_def bits_of_time_def defined_gains_def defined_times_def
        gain_defs time_defs)
  have unknown: "gain_of_bits 4 = 4" "gain_of_bits 5 = 5"
    by (simp_all add: gain_of_bits_def)
  have "gain_of_bits 4 \<notin> set defined_gains" "gain_of_bits 5 \<notin> set defined_gains"
    by (simp_all add: gain_of_bits_defined)
  with fields enums inj unknown show ?thesis
    by (simp only: gain_of_bits_defined time_of_bits_defined simp_thms)
qed

text \<open>
  The claim as written fails: the code has no "unknown" value. The two patterns without
  an enumerator are passed through as the bytes 4 and 5, two different values, each
  still carrying its pattern.
\<close>

theorem gain_undefined_patterns_no_sentinel:
  "gain_of_bits 4 = 4 \<and> gain_of_bits 5 = 5 \<and> gain_of_bits 4 \<noteq> gain_of_bits 5"
  by (simp add: gain_of_bits_def)

text \<open>
  C3. \<open>is_data_ready\<close> reads the status register once (address 0x8C). It answers
  \<open>NO_DATA\<close> exactly when bit 2 of the byte is clear, \<open>BAD_DATA\<close> exactly when bits
  2 and 7 are set, and \<open>DATA_OK\<close> exactly when bit 2 is set and bit 7 is clear. In the
  last two cases the readings come back with bits 4-6 of the byte as the actual gain
  and nothing else changed; with \<open>NO_DATA\<close> they come back as they were.
\<close>

theorem is_data_ready_cases:
  "(fst (fst (is_data_ready data b)) = NO_DATA) = (\<not> bit (device b 0x8C) 2)
   \<and> (fst (fst (is_data_ready data b)) = BAD_DATA)
       = (bit (device b 0x8C) 2 \<and> bit (device b 0x8C) 7)
   \<and> (fst (fst (is_data_ready data b)) = DATA_OK)
       = (bit (device b 0x8C) 2 \<and> \<not> bit (device b 0x8C) 7)
   \<and> snd (fst (is_data_ready data b))
       = (if bit (device b 0x8C) 2
          then data\<lparr>actual_gain := take_bit 3 (drop_bit 4 (device b 0x8C))\<rparr>
          else data)
   \<and> trace (snd (is_data_ready data b)) = trace b @ [Read 0x8C]"
  by (simp add: is_data_ready_def read_register_def status_of_raw_def gain_of_field
      Let_def)

text \<open>
  C4 (as the code has it). The encoded byte carries \<open>active_mode\<close> at bit 0,
  \<open>sw_reset\<close> at bit 1, the gain field at bits 2-4 and the \<open>reserved\<close> member at
  bits 5-7; decoding the byte gives the members back. The reserved bits of the byte are
  the \<open>reserved\<close> member, and are zero once that member is zero.
\<close>

theorem control_register_layout:
  "bit (ctrl_raw r) 0 = ctrl_active_mode r
   \<and> bit (ctrl_raw r) 1 = ctrl_sw_reset r
   \<and> ucast (drop_bit 2 (ctrl_raw r)) = ctrl_gain r
   \<and> drop_bit 5 (ctrl_raw r) = ucast (ctrl_reserved r)
   \<and> ctrl_of_raw (ctrl_raw r) = r
   \<and> drop_bit 5 (ctrl_raw (r\<lparr>ctrl_reserved := 0\<rparr>)) = 0"
proof -
  have bits01: "bit (ctrl_raw r) 0 = ctrl_active_mode r" "bit (ctrl_raw r) 1 = ctrl_sw_reset r"
    by (simp_all add: bit_ctrl_raw)
  have gain: "ucast (drop_bit 2 (ctrl_raw r)) = ctrl_gain r"
    by (rule bit_word_eqI) (auto simp add: bit_field_of_byte bit_ctrl_raw)
  have reserved: "drop_bit 5 (ctrl_raw r') = ucast (ctrl_reserved r')" for r'
    by (rule bit_word_eqI)
      (auto simp add: bit_drop_bit_eq bit_ctrl_raw bit_ucast_iff dest: bit_imp_le_length)
  have "drop_bit 5 (ctrl_raw (r\<lparr>ctrl_reserved := 0\<rparr>)) = 0"
    by (simp add: reserved)
  with bits01 gain reserved [of r] show ?thesis
    by (simp add: ctrl_of_raw_raw)
qed

text \<open>
  The claim as written fails: a record whose \<open>reserved\<close> member is 7 encodes to a byte
  whose bits 5-7 are all set.
\<close>

theorem control_register_reserved_not_zeroed:
  "drop_bit 5 (ctrl_raw \<lparr>ctrl_active_mode = False, ctrl_sw_reset = False,
      ctrl_gain = 0, ctrl_reserved = 7\<rparr>) \<noteq> 0"
  by (simp add: ctrl_raw_def)

text \<open>
  C5. The nine registers have the addresses 0x80, 0x85, 0x86, 0x87, 0x88-0x8B and 0x8C
  and no others. Each Device Control operation appends to the bus trace accesses to
  these addresses only: the control register for reset-and-activate and for the gain,
  the measurement rate register for the integration time, the status register for the
  data-ready poll, the four channel bytes for the data read.
\<close>

theorem device_control_addresses:
  "map reg_addr [ALS_CTRL, MEAS_RATE, PART_ID, MANU_ID, CH1_0, CH1_1, CH0_0, CH0_1, ALS_STATUS]
     = [0x80, 0x85, 0x86, 0x87, 0x88, 0x89, 0x8A, 0x8B, 0x8C]
   \<and> reg_addr r \<in> {0x80, 0x85, 0x86, 0x87, 0x88, 0x89, 0x8A, 0x8B, 0x8C}
   \<and> map access_addr (trace (configure_reset_and_activate c b))
       = map access_addr (trace b) @ [0x80, 0x80]
   \<and> map access_addr (trace (configure_gain gain b))
       = map access_addr (trace b) @ [0x80, 0x80]
   \<and> map access_addr (trace (configure_integration_time time b))
       = map access_addr (trace b) @ [0x85, 0x85]
   \<and> map access_addr (trace (snd (is_data_ready data b)))
       = map access_addr (trace b) @ [0x8C]
   \<and> map access_addr (trace (snd (read_sensor_data als_status data b)))
       = map access_addr (trace b) @ [0x88, 0x89, 0x8A, 0x8B]"
proof -
  have "reg_addr r \<in> {0x80, 0x85, 0x86, 0x87, 0x88, 0x89, 0x8A, 0x8B, 0x8C}"
    by (cases r) simp_all
  moreover have "map access_addr (trace (configure_reset_and_activate c b))
      = map access_addr (trace b) @ [0x80, 0x80]"
    by (simp add: configure_reset_and_activate_def write_register_def Let_def)
  moreover have "map access_addr (trace (configure_gain gain b))
      = map access_addr (trace b) @ [0x80, 0x80]"
    by (simp add: configure_gain_def read_register_def write_register_def Let_def)
  moreover have "map access_addr (trace (configure_integration_time time b))
      = map access_addr (trace b) @ [0x85, 0x85]"
    by (simp add: configure_integration_time_def read_register_def write_register_def Let_def)
  moreover have "map access_addr (trace (snd (is_data_ready data b)))
      = map access_addr (trace b) @ [0x8C]"
    by (simp add: is_data_ready_def read_register_def Let_def)
  moreover have "map access_addr (trace (snd (read_sensor_data als_status data b)))
      = map access_addr (trace b) @ [0x88, 0x89, 0x8A, 0x8B]"
    by (simp add: read_sensor_data_def read_register_def Let_def)
  ultimately show ?thesis
    by simp
qed


text \<open>
  C8. One call of \<open>are_adjustments_required\<close> leaves the gain or the integration time
  of the readings as it was (never changes both) and never touches the counts or the lux
  value; it answers true exactly when it changed the readings. At the top of both
  ladders with both channels under the low threshold, and at the bottom of both ladders
  with a channel at or over the high threshold, it answers false and changes nothing.
\<close>

theorem are_adjustments_required_one_step:
  "(actual_gain (snd (are_adjustments_required low high c data)) = actual_gain data
      \<or> integration_time (snd (are_adjustments_required low high c data))
          = integration_time data)
   \<and> ch0 (snd (are_adjustments_required low high c data)) = ch0 data
   \<and> ch1 (snd (are_adjustments_required low high c data)) = ch1 data
   \<and> lux (snd (are_adjustments_required low high c data)) = lux data
   \<and> fst (are_adjustments_required low high c data)
       = (snd (are_adjustments_required low high c data) \<noteq> data)
   \<and> (ch0 data < low \<and> ch1 data < low
        \<and> actual_gain data = GAIN_96 \<and> integration_time data = INTEGRATION_TIME_400MS
      \<longrightarrow> are_adjustments_required low high c data = (False, data))
   \<and> (\<not> (ch0 data < low \<and> ch1 data < low) \<and> (high \<le> ch0 data \<or> high \<le> ch1 data)
        \<and> actual_gain data = GAIN_1 \<and> integration_time data = INTEGRATION_TIME_50MS
      \<longrightarrow> are_adjustments_required low high c data = (False, data))"
proof -
  let ?r = "are_adjustments_required low high c data"
  have one: "actual_gain (snd ?r) = actual_gain data
      \<or> integration_time (snd ?r) = integration_time data"
    by (simp add: are_adjustments_required_def)
  have frame: "ch0 (snd ?r) = ch0 data" "ch1 (snd ?r) = ch1 data" "lux (snd ?r) = lux data"
    by (simp_all add: are_adjustments_required_def)
  have changed: "fst ?r = (snd ?r \<noteq> data)"
  proof -
    have "d\<lparr>actual_gain := g\<rparr> \<noteq> d" if "g \<noteq> actual_gain d" for d :: Readings and g
      using that by (cases d) auto
    moreover have "d\<lparr>integration_time := t\<rparr> \<noteq> d" if "t \<noteq> integration_time d"
      for d :: Readings and t
      using that by (cases d) auto
    ultimately show ?thesis
      by (simp add: are_adjustments_required_def)
  qed
  have top: "?r = (False, data)"
    if "ch0 data < low \<and> ch1 data < low" "actual_gain data = GAIN_96"
      "integration_time data = INTEGRATION_TIME_400MS"
    using that
    by (simp add: are_adjustments_required_def get_next_GAINS get_next_TIMES_top gain_defs)
  have bottom: "?r = (False, data)"
    if "\<not> (ch0 data < low \<and> ch1 data < low)" "high \<le> ch0 data \<or> high \<le> ch1 data"
      "actual_gain data = GAIN_1" "integration_time data = INTEGRATION_TIME_50MS"
    using that
    by (auto simp add: are_adjustments_required_def get_prev_GAINS get_prev_TIMES_bottom
        gain_defs)
  from one frame changed top bottom show ?thesis
    by blast
qed

theorem are_adjustments_required_one_step_witness:
  "are_adjustments_required 100 60000 LTR303Component_init
     \<lparr>ch0 = 3, ch1 = 1, actual_gain = GAIN_96,
      integration_time = INTEGRATION_TIME_400MS, lux = float_0\<rparr>
     = (False, \<lparr>ch0 = 3, ch1 = 1, actual_gain = GAIN_96,
         integration_time = INTEGRATION_TIME_400MS, lux = float_0\<rparr>)
   \<and> are_adjustments_required 100 60000 LTR303Component_init
       \<lparr>ch0 = 65535, ch1 = 65535, actual_gain = GAIN_1,
        integration_time = INTEGRATION_TIME_50MS, lux = float_0\<rparr>
       = (False, \<lparr>ch0 = 65535, ch1 = 65535, actual_gain = GAIN_1,
           integration_time = INTEGRATION_TIME_50MS, lux = float_0\<rparr>)"
  using
    are_adjustments_required_one_step [where low = 100 and high = 60000
      and c = LTR303Component_init
      and data = "\<lparr>ch0 = 3, ch1 = 1, actual_gain = GAIN_96,
        integration_time = INTEGRATION_TIME_400MS, lux = float_0\<rparr>"]
    are_adjustments_required_one_step [where low = 100 and high = 60000
      and c = LTR303Component_init
      and data = "\<lparr>ch0 = 65535, ch1 = 65535, actual_gain = GAIN_1,
        integration_time = INTEGRATION_TIME_50MS, lux = float_0\<rparr>"]
  by simp

text \<open>
  C9. The component as its default member initialisers leave it: state
  \<open>NOT_INITIALIZED\<close>, automatic mode on, gain \<open>GAIN_1\<close>, integration time 100 ms,
  repeat rate 500 ms, glass attenuation factor 1.0, the five sensor pointers null, and
  the readings \<open>{0, 0, GAIN_1, 100 ms, 0.0}\<close>. The enumerators are also given by their
  numeric codes.
\<close>

theorem initial_component:
  "this_state LTR303Component_init = NOT_INITIALIZED
   \<and> this_automatic_mode_enabled LTR303Component_init
   \<and> this_gain LTR303Component_init = GAIN_1
   \<and> this_integration_time LTR303Component_init = INTEGRATION_TIME_100MS
   \<and> this_repeat_rate LTR303Component_init = REPEAT_RATE_500MS
   \<and> this_glass_attenuation_factor LTR303Component_init = float_1
   \<and> this_infrared_counts_sensor LTR303Component_init = None
   \<and> this_full_spectrum_counts_sensor LTR303Component_init = None
   \<and> this_ambient_light_sensor LTR303Component_init = None
   \<and> this_actual_gain_sensor LTR303Component_init = None
   \<and> this_actual_integration_time_sensor LTR303Component_init = None
   \<and> this_readings LTR303Component_init =
       \<lparr>ch0 = 0, ch1 = 0, actual_gain = GAIN_1,
        integration_time = INTEGRATION_TIME_100MS, lux = float_0\<rparr>
   \<and> unat (this_gain LTR303Component_init) = 0
   \<and> unat (this_integration_time LTR303Component_init) = 0
   \<and> unat (this_repeat_rate LTR303Component_init) = 3
   \<and> unat (actual_gain (this_readings LTR303Component_init)) = 0
   \<and> unat (integration_time (this_readings LTR303Component_init)) = 0"
  by (simp add: LTR303Component_init_def Readings_init_def GAIN_1_def
      INTEGRATION_TIME_100MS_def REPEAT_RATE_500MS_def)

text \<open>
  C10. Each setter stores its argument in its one member and changes nothing else:
  the target member of the result is the argument, and putting the old value of that
  member back gives the component as it was (so the state, the readings and every other
  member and pointer are those of before).
\<close>

theorem setters_frame:
  "this_gain (set_gain g c) = g
   \<and> (set_gain g c)\<lparr>this_gain := this_gain c\<rparr> = c
   \<and> this_integration_time (set_integration_time t c) = t
   \<and> (set_integration_time t c)\<lparr>this_integration_time := this_integration_time c\<rparr> = c
   \<and> this_repeat_rate (set_repeat_rate rr c) = rr
   \<and> (set_repeat_rate rr c)\<lparr>this_repeat_rate := this_repeat_rate c\<rparr> = c
   \<and> this_glass_attenuation_factor (set_glass_attenuation_factor f c) = f
   \<and> (set_glass_attenuation_factor f c)
        \<lparr>this_glass_attenuation_factor := this_glass_attenuation_factor c\<rparr> = c
   \<and> this_automatic_mode_enabled (set_enable_automatic_mode e c) = e
   \<and> (set_enable_automatic_mode e c)
        \<lparr>this_automatic_mode_enabled := this_automatic_mode_enabled c\<rparr> = c
   \<and> this_ambient_light_sensor (set_ambient_light_sensor s c) = s
   \<and> (set_ambient_light_sensor s c)\<lparr>this_ambient_light_sensor := this_ambient_light_sensor c\<rparr> = c
   \<and> this_full_spectrum_counts_sensor (set_full_spectrum_counts_sensor s c) = s
   \<and> (set_full_spectrum_counts_sensor s c)
        \<lparr>this_full_spectrum_counts_sensor := this_full_spectrum_counts_sensor c\<rparr> = c
   \<and> this_infrared_counts_sensor (set_infrared_counts_sensor s c) = s
   \<and> (set_infrared_counts_sensor s c)
        \<lparr>this_infrared_counts_sensor := this_infrared_counts_sensor c\<rparr> = c
   \<and> this_actual_gain_sensor (set_actual_gain_sensor s c) = s
   \<and> (set_actual_gain_sensor s c)\<lparr>this_actual_gain_sensor := this_actual_gain_sensor c\<rparr> = c
   \<and> this_actual_integration_time_sensor (set_actual_integration_time_sensor s c) = s
   \<and> (set_actual_integration_time_sensor s c)
        \<lparr>this_actual_integration_time_sensor := this_actual_integration_time_sensor c\<rparr> = c"
  by (simp add: set_gain_def set_integration_time_def set_repeat_rate_def
      set_glass_attenuation_factor_def set_enable_automatic_mode_def
      set_ambient_light_sensor_def set_full_spectrum_counts_sensor_def
      set_infrared_counts_sensor_def set_actual_gain_sensor_def
      set_actual_integration_time_sensor_def)

end
